theory Spec2Isabelle
  imports Main "HOL-Library.Word"
begin

section \<open>Package i18n: an implementation-agnostic translation facade\<close>

text \<open>
  The repository holds two versions of one small Go package. Both keep a single
  package-level variable \<^verbatim>\<open>instance\<close> of interface type and expose free functions
  that delegate to it, or fall back when it is \<^verbatim>\<open>nil\<close>.

  \<^item> Version 1 (\<^verbatim>\<open>i18n/i18n.go\<close>): interface \<^verbatim>\<open>MarkerAPI\<close> with \<^verbatim>\<open>G\<close> and \<^verbatim>\<open>NG\<close>.
  \<^item> Version 2 (the second source file): interface \<^verbatim>\<open>API\<close> with \<^verbatim>\<open>CurrentLocale\<close>,
    \<^verbatim>\<open>G\<close> and \<^verbatim>\<open>NG\<close>, and a dependency on an external locale detector.

  Both versions declare the same Go names; the model suffixes them with
  \<open>_v1\<close> and \<open>_v2\<close>.
\<close>

subsection \<open>Go values\<close>

text \<open>
  Go's \<^verbatim>\<open>int\<close> is a signed machine integer, 64 bits wide on 64-bit targets. The
  package only compares it with \<^verbatim>\<open>1\<close> and hands it on, so no arithmetic can wrap.
\<close>

type_synonym go_int = "64 word"

text \<open>
  A non-nil value of Go's \<^verbatim>\<open>error\<close> interface, identified by its message. A value of
  type \<^verbatim>\<open>error\<close> is modelled as \<open>error option\<close>, with \<open>None\<close> for \<^verbatim>\<open>nil\<close>.
\<close>

datatype error = Error string

subsection \<open>Version 1\<close>

text \<open>
  The interface \<^verbatim>\<open>MarkerAPI\<close>: an implementation is the pair of its methods, each
  taken as the function from its arguments to the string it returns. A value of the
  interface type is a \<open>MarkerAPI option\<close>, \<open>None\<close> being the \<^verbatim>\<open>nil\<close> interface
  value, the only one for which the test \<^verbatim>\<open>instance == nil\<close> holds.
\<close>

record MarkerAPI =
  MarkerAPI_G :: "string \<Rightarrow> string"
  MarkerAPI_NG :: "string \<Rightarrow> string \<Rightarrow> go_int \<Rightarrow> string"

text \<open>The package-level state: \<^verbatim>\<open>var instance MarkerAPI\<close>.\<close>

record pkg_v1 =
  instance_v1 :: "MarkerAPI option"

text \<open>At program start the variable holds the zero value of its type, \<^verbatim>\<open>nil\<close>.\<close>

definition init_v1 :: pkg_v1 where
  "init_v1 = \<lparr>instance_v1 = None\<rparr>"

definition Initialise_v1 :: "MarkerAPI option \<Rightarrow> pkg_v1 \<Rightarrow> pkg_v1" where
  "Initialise_v1 markers st = st\<lparr>instance_v1 := markers\<rparr>"

definition G_v1 :: "pkg_v1 \<Rightarrow> string \<Rightarrow> string" where
  "G_v1 st msgid =
     (case instance_v1 st of
        None \<Rightarrow> msgid
      | Some i \<Rightarrow> MarkerAPI_G i msgid)"

definition NG_v1 :: "pkg_v1 \<Rightarrow> string \<Rightarrow> string \<Rightarrow> go_int \<Rightarrow> string" where
  "NG_v1 st msgid msgidPlural n =
     (case instance_v1 st of
        None \<Rightarrow> (if n = 1 then msgid else msgidPlural)
      | Some i \<Rightarrow> MarkerAPI_NG i msgid msgidPlural n)"

subsection \<open>Version 2\<close>

text \<open>The interface \<^verbatim>\<open>API\<close>, with the additional method \<^verbatim>\<open>CurrentLocale\<close>.\<close>

record API =
  API_CurrentLocale :: "unit \<Rightarrow> string"
  API_G :: "string \<Rightarrow> string"
  API_NG :: "string \<Rightarrow> string \<Rightarrow> go_int \<Rightarrow> string"

text \<open>The package-level state: \<^verbatim>\<open>var instance API\<close>.\<close>

record pkg_v2 =
  instance_v2 :: "API option"

definition init_v2 :: pkg_v2 where
  "init_v2 = \<lparr>instance_v2 = None\<rparr>"

text \<open>
  The external locale library, as \<^verbatim>\<open>CurrentLocale\<close> uses it. None of it is part of
  the repository, so it is a parameter of the model:
  \<^item> \<open>locale_Detect\<close> is what the call \<^verbatim>\<open>locale.Detect()\<close> returns in the environment
    the program runs in, a tag together with an error value;
  \<^item> \<open>Tag_Base\<close> is the method \<^verbatim>\<open>tag.Base()\<close>, which returns a base and a second
    result that the package never looks at (its type is left open);
  \<^item> \<open>Base_String\<close> is the method \<^verbatim>\<open>base.String()\<close>.
\<close>

record ('tag, 'base, 'second) locale_env =
  locale_Detect :: "'tag \<times> error option"
  Tag_Base :: "'tag \<Rightarrow> 'base \<times> 'second"
  Base_String :: "'base \<Rightarrow> string"

definition Initialise_v2 :: "API option \<Rightarrow> pkg_v2 \<Rightarrow> pkg_v2" where
  "Initialise_v2 api st = st\<lparr>instance_v2 := api\<rparr>"

definition CurrentLocale_v2 :: "('tag, 'base, 'second) locale_env \<Rightarrow> pkg_v2 \<Rightarrow> string" where
  "CurrentLocale_v2 env st =
     (case instance_v2 st of
        None \<Rightarrow>
          (let (tag, err) = locale_Detect env in
             if err \<noteq> None then ''en''
             else (let (base, _) = Tag_Base env tag in Base_String env base))
      | Some i \<Rightarrow> API_CurrentLocale i ())"

definition G_v2 :: "pkg_v2 \<Rightarrow> string \<Rightarrow> string" where
  "G_v2 st msgid =
     (case instance_v2 st of
        None \<Rightarrow> msgid
      | Some i \<Rightarrow> API_G i msgid)"

definition NG_v2 :: "pkg_v2 \<Rightarrow> string \<Rightarrow> string \<Rightarrow> go_int \<Rightarrow> string" where
  "NG_v2 st msgid msgidPlural n =
     (case instance_v2 st of
        None \<Rightarrow> msgid
      | Some i \<Rightarrow> API_NG i msgid msgidPlural n)"

subsection \<open>A locale library that follows the specification\<close>

text \<open>
  Modelled from the spec: the locale detector and its tag type are an external
  collaborator whose code is not in the repository. The specification describes a tag
  as a structured BCP-47 identifier such as \<^verbatim>\<open>en-ZA\<close> whose base is its leading
  language subtag (\<^verbatim>\<open>en\<close>). Here a tag is its text, subtags separated by a hyphen;
  the base is the text before the first hyphen, and its string form is itself. The
  second result of \<open>bcp47_Base\<close> carries no information.
\<close>

definition bcp47_Base :: "string \<Rightarrow> string \<times> unit" where
  "bcp47_Base tag = (takeWhile (\<lambda>c. c \<noteq> CHR ''-'') tag, ())"

definition bcp47_env :: "string \<times> error option \<Rightarrow> (string, string, unit) locale_env" where
  "bcp47_env detected =
     \<lparr>locale_Detect = detected, Tag_Base = bcp47_Base, Base_String = (\<lambda>base. base)\<rparr>"

text \<open>Stub providers, used to run the facade on concrete inputs.\<close>

definition stub_v1 :: "string \<Rightarrow> MarkerAPI" where
  "stub_v1 mark =
     \<lparr>MarkerAPI_G = (\<lambda>msgid. msgid @ mark),
      MarkerAPI_NG = (\<lambda>msgid msgidPlural n. (if sint n < 2 then msgid else msgidPlural) @ mark)\<rparr>"

definition stub_v2 :: "string \<Rightarrow> string \<Rightarrow> API" where
  "stub_v2 loc mark =
     \<lparr>API_CurrentLocale = (\<lambda>_. loc),
      API_G = (\<lambda>msgid. msgid @ mark),
      API_NG = (\<lambda>msgid msgidPlural n. (if sint n < 2 then msgid else msgidPlural) @ mark)\<rparr>"

text \<open>
  A locale library whose \<^verbatim>\<open>Base()\<close> cannot determine a base: it yields the
  undetermined base \<^verbatim>\<open>und\<close> and reports the failure in its second result.
\<close>

definition und_env :: "string \<times> error option \<Rightarrow> (string, string, error option) locale_env" where
  "und_env detected =
     \<lparr>locale_Detect = detected,
      Tag_Base = (\<lambda>tag. (''und'', Some (Error ''base language undetermined''))),
      Base_String = (\<lambda>base. base)\<rparr>"

section \<open>Fallback behaviour without a provider\<close>

text \<open>
  Claim C1. In version 2, with no provider registered, \<open>NG\<close> returns the singular
  form \<open>msgid\<close> unchanged, whatever the plural form and whatever the count \<open>n\<close>
  (one, zero, two, negative or anything else).
\<close>

theorem NG_v2_fallback_singular:
  "instance_v2 st = None \<Longrightarrow> NG_v2 st s p n = s"
  by (simp add: NG_v2_def)

theorem NG_v2_fallback_singular_witness:
  "instance_v2 init_v2 = None
   \<and> NG_v2 init_v2 ''file'' ''files'' 5 = ''file''
   \<and> NG_v2 init_v2 ''file'' ''files'' (- 1) = ''file''"
proof -
  have h: "instance_v2 init_v2 = None" by (simp add: init_v2_def)
  show ?thesis
    using h NG_v2_fallback_singular [OF h, of "''file''" "''files''" 5]
      NG_v2_fallback_singular [OF h, of "''file''" "''files''" "- 1"]
    by simp
qed

text \<open>
  Claim C2. In version 1, with no provider registered, \<open>NG\<close> returns the singular
  form \<open>s\<close> when \<open>n\<close> is one, and the plural form \<open>p\<close> for every other \<open>n\<close>
  (zero, two, negative counts included).
\<close>

theorem NG_v1_fallback_binary_plural:
  "instance_v1 st = None \<Longrightarrow>
     NG_v1 st s p 1 = s \<and> (n \<noteq> 1 \<longrightarrow> NG_v1 st s p n = p)"
  by (simp add: NG_v1_def)

theorem NG_v1_fallback_binary_plural_witness:
  "instance_v1 init_v1 = None
   \<and> NG_v1 init_v1 ''file'' ''files'' 1 = ''file''
   \<and> NG_v1 init_v1 ''file'' ''files'' 0 = ''files''
   \<and> NG_v1 init_v1 ''file'' ''files'' 2 = ''files''
   \<and> NG_v1 init_v1 ''file'' ''files'' (- 1) = ''files''"
proof -
  have h: "instance_v1 init_v1 = None" by (simp add: init_v1_def)
  have zero: "(0::go_int) \<noteq> 1" by simp
  have two: "(2::go_int) \<noteq> 1" by simp
  have minus: "(- 1::go_int) \<noteq> 1" by simp
  show ?thesis
    using h zero two minus
      NG_v1_fallback_binary_plural [OF h, of "''file''" "''files''" 0]
      NG_v1_fallback_binary_plural [OF h, of "''file''" "''files''" 2]
      NG_v1_fallback_binary_plural [OF h, of "''file''" "''files''" "- 1"]
    by blast
qed

text \<open>
  Claim C5. In both versions, with no provider registered, \<open>G\<close> returns its argument
  unchanged.
\<close>

theorem G_fallback_identity:
  "(instance_v1 st1 = None \<longrightarrow> G_v1 st1 msgid = msgid)
   \<and> (instance_v2 st2 = None \<longrightarrow> G_v2 st2 msgid = msgid)"
  by (simp add: G_v1_def G_v2_def)

theorem G_fallback_identity_witness:
  "instance_v1 init_v1 = None \<and> G_v1 init_v1 ''Hello'' = ''Hello''
   \<and> instance_v2 init_v2 = None \<and> G_v2 init_v2 ''Hello'' = ''Hello''"
proof -
  have h1: "instance_v1 init_v1 = None" by (simp add: init_v1_def)
  have h2: "instance_v2 init_v2 = None" by (simp add: init_v2_def)
  show ?thesis
    using h1 h2 G_fallback_identity [of init_v1 "''Hello''" init_v2]
    by blast
qed

section \<open>The locale query of version 2\<close>

text \<open>
  Claim C3. In version 2, with no provider registered, when the locale detection
  returns an error, \<open>CurrentLocale\<close> returns the constant string \<open>en\<close>. The result
  is a plain string: the detection error does not reach the caller.
\<close>

theorem CurrentLocale_v2_detect_error:
  "instance_v2 st = None \<Longrightarrow> locale_Detect env = (tag, Some e) \<Longrightarrow>
     CurrentLocale_v2 env st = ''en''"
  by (simp add: CurrentLocale_v2_def)

theorem CurrentLocale_v2_detect_error_witness:
  "instance_v2 init_v2 = None
   \<and> locale_Detect (bcp47_env (''fr-CA'', Some (Error ''cannot detect locale'')))
       = (''fr-CA'', Some (Error ''cannot detect locale''))
   \<and> CurrentLocale_v2 (bcp47_env (''fr-CA'', Some (Error ''cannot detect locale''))) init_v2
       = ''en''"
proof -
  have h: "instance_v2 init_v2 = None" by (simp add: init_v2_def)
  have d: "locale_Detect (bcp47_env (''fr-CA'', Some (Error ''cannot detect locale'')))
             = (''fr-CA'', Some (Error ''cannot detect locale''))"
    by (simp add: bcp47_env_def)
  show ?thesis
    using h d CurrentLocale_v2_detect_error [OF h d]
    by blast
qed

text \<open>
  Claim C4. In version 2, with no provider registered, when the locale detection
  succeeds with a tag, \<open>CurrentLocale\<close> returns the string form of the base that the
  library extracts from the tag. With a library that follows the specification
  (the base is the leading language subtag), a detected tag \<open>en-ZA\<close> gives \<open>en\<close>.
\<close>

theorem CurrentLocale_v2_detected_base:
  "(instance_v2 st = None \<and> locale_Detect env = (tag, None) \<longrightarrow>
      CurrentLocale_v2 env st = Base_String env (fst (Tag_Base env tag)))
   \<and> CurrentLocale_v2 (bcp47_env (''en-ZA'', None)) init_v2 = ''en''"
  by (simp add: CurrentLocale_v2_def bcp47_env_def bcp47_Base_def init_v2_def
      split: prod.split)

theorem CurrentLocale_v2_detected_base_witness:
  "instance_v2 init_v2 = None
   \<and> locale_Detect (bcp47_env (''pt-BR'', None)) = (''pt-BR'', None)
   \<and> CurrentLocale_v2 (bcp47_env (''pt-BR'', None)) init_v2 = ''pt''"
proof -
  have h: "instance_v2 init_v2 = None" by (simp add: init_v2_def)
  have d: "locale_Detect (bcp47_env (''pt-BR'', None)) = (''pt-BR'', None)"
    by (simp add: bcp47_env_def)
  have b: "Base_String (bcp47_env (''pt-BR'', None))
             (fst (Tag_Base (bcp47_env (''pt-BR'', None)) ''pt-BR'')) = ''pt''"
    by (simp add: bcp47_env_def bcp47_Base_def)
  show ?thesis
    using h d b
      CurrentLocale_v2_detected_base [of init_v2 "bcp47_env (''pt-BR'', None)" "''pt-BR''"]
    by simp
qed

text \<open>
  Claim C10. In version 2, with no provider registered, when the locale detection
  succeeds, \<open>CurrentLocale\<close> drops the second result of \<open>Base()\<close> and returns the
  string form of whatever base it yields, also when that second result reports a
  failure; the constant \<open>en\<close> is the result of the branch for a detection error only.
\<close>

theorem CurrentLocale_v2_ignores_Base_second:
  "instance_v2 st = None \<Longrightarrow> locale_Detect env = (tag, None) \<Longrightarrow>
     Tag_Base env tag = (base, second) \<Longrightarrow>
     CurrentLocale_v2 env st = Base_String env base"
  by (simp add: CurrentLocale_v2_def)

theorem CurrentLocale_v2_ignores_Base_second_witness:
  "instance_v2 init_v2 = None
   \<and> locale_Detect (und_env (''x-private'', None)) = (''x-private'', None)
   \<and> Tag_Base (und_env (''x-private'', None)) ''x-private''
       = (''und'', Some (Error ''base language undetermined''))
   \<and> CurrentLocale_v2 (und_env (''x-private'', None)) init_v2 = ''und''
   \<and> CurrentLocale_v2 (und_env (''x-private'', None)) init_v2 \<noteq> ''en''"
proof -
  have h: "instance_v2 init_v2 = None" by (simp add: init_v2_def)
  have d: "locale_Detect (und_env (''x-private'', None)) = (''x-private'', None)"
    by (simp add: und_env_def)
  have b: "Tag_Base (und_env (''x-private'', None)) ''x-private''
             = (''und'', Some (Error ''base language undetermined''))"
    by (simp add: und_env_def)
  have s: "Base_String (und_env (''x-private'', None)) ''und'' = ''und''"
    by (simp add: und_env_def)
  show ?thesis
    using h d b s CurrentLocale_v2_ignores_Base_second [OF h d b]
    by simp
qed

section \<open>Delegation to a registered provider\<close>

text \<open>
  Claim C6. In both versions, when a provider is registered, \<open>NG\<close> returns exactly
  what the provider's \<open>NG\<close> returns for the same three arguments: the facade applies
  no plural rule of its own.
\<close>

theorem NG_delegates_to_provider:
  "(instance_v1 st1 = Some P1 \<longrightarrow> NG_v1 st1 s p n = MarkerAPI_NG P1 s p n)
   \<and> (instance_v2 st2 = Some P2 \<longrightarrow> NG_v2 st2 s p n = API_NG P2 s p n)"
  by (simp add: NG_v1_def NG_v2_def)

theorem NG_delegates_to_provider_witness:
  "instance_v1 (Initialise_v1 (Some (stub_v1 ''!'')) init_v1) = Some (stub_v1 ''!'')
   \<and> NG_v1 (Initialise_v1 (Some (stub_v1 ''!'')) init_v1) ''file'' ''files'' 0 = ''file!''
   \<and> instance_v2 (Initialise_v2 (Some (stub_v2 ''af'' ''!'')) init_v2) = Some (stub_v2 ''af'' ''!'')
   \<and> NG_v2 (Initialise_v2 (Some (stub_v2 ''af'' ''!'')) init_v2) ''file'' ''files'' 0 = ''file!''"
proof -
  have h1: "instance_v1 (Initialise_v1 (Some (stub_v1 ''!'')) init_v1) = Some (stub_v1 ''!'')"
    by (simp add: Initialise_v1_def)
  have h2: "instance_v2 (Initialise_v2 (Some (stub_v2 ''af'' ''!'')) init_v2)
              = Some (stub_v2 ''af'' ''!'')"
    by (simp add: Initialise_v2_def)
  have p1: "MarkerAPI_NG (stub_v1 ''!'') ''file'' ''files'' 0 = ''file!''"
    by (simp add: stub_v1_def)
  have p2: "API_NG (stub_v2 ''af'' ''!'') ''file'' ''files'' 0 = ''file!''"
    by (simp add: stub_v2_def)
  show ?thesis
    using h1 h2 p1 p2
      NG_delegates_to_provider [of "Initialise_v1 (Some (stub_v1 ''!'')) init_v1" "stub_v1 ''!''"
        "''file''" "''files''" 0
        "Initialise_v2 (Some (stub_v2 ''af'' ''!'')) init_v2" "stub_v2 ''af'' ''!''"]
    by simp
qed

text \<open>
  Claim C9. In version 2, when a provider is registered, \<open>CurrentLocale\<close> returns
  exactly what the provider's \<open>CurrentLocale\<close> returns: the locale library is not
  consulted and the result is not normalised.
\<close>

theorem CurrentLocale_v2_delegates_to_provider:
  "instance_v2 st = Some P \<Longrightarrow> CurrentLocale_v2 env st = API_CurrentLocale P ()"
  by (simp add: CurrentLocale_v2_def)

theorem CurrentLocale_v2_delegates_to_provider_witness:
  "instance_v2 (Initialise_v2 (Some (stub_v2 ''en_ZA'' ''!'')) init_v2)
     = Some (stub_v2 ''en_ZA'' ''!'')
   \<and> CurrentLocale_v2 (bcp47_env (''fr-CA'', None))
        (Initialise_v2 (Some (stub_v2 ''en_ZA'' ''!'')) init_v2) = ''en_ZA''"
proof -
  have h: "instance_v2 (Initialise_v2 (Some (stub_v2 ''en_ZA'' ''!'')) init_v2)
             = Some (stub_v2 ''en_ZA'' ''!'')"
    by (simp add: Initialise_v2_def)
  have p: "API_CurrentLocale (stub_v2 ''en_ZA'' ''!'') () = ''en_ZA''"
    by (simp add: stub_v2_def)
  show ?thesis
    using h p
      CurrentLocale_v2_delegates_to_provider [OF h, of "bcp47_env (''fr-CA'', None)"]
    by simp
qed

section \<open>Registration\<close>

text \<open>
  Claim C7. In both versions, \<open>Initialise\<close> accepts the nil provider: from any state
  (also one where a provider was registered before) it yields a state with an empty
  slot, and every facade function then behaves as on the initial, never-registered
  state; in particular \<open>G\<close> returns its argument.
\<close>

theorem Initialise_nil_unregisters:
  "instance_v1 (Initialise_v1 None st1) = None
   \<and> G_v1 (Initialise_v1 None st1) = G_v1 init_v1
   \<and> NG_v1 (Initialise_v1 None st1) = NG_v1 init_v1
   \<and> G_v1 (Initialise_v1 None st1) msgid = msgid
   \<and> instance_v2 (Initialise_v2 None st2) = None
   \<and> G_v2 (Initialise_v2 None st2) = G_v2 init_v2
   \<and> NG_v2 (Initialise_v2 None st2) = NG_v2 init_v2
   \<and> CurrentLocale_v2 env (Initialise_v2 None st2) = CurrentLocale_v2 env init_v2
   \<and> G_v2 (Initialise_v2 None st2) msgid = msgid"
proof -
  have s1: "Initialise_v1 None st1 = init_v1"
    by (simp add: Initialise_v1_def init_v1_def)
  have s2: "Initialise_v2 None st2 = init_v2"
    by (simp add: Initialise_v2_def init_v2_def)
  have g1: "G_v1 init_v1 msgid = msgid"
    by (simp add: G_v1_def init_v1_def)
  have g2: "G_v2 init_v2 msgid = msgid"
    by (simp add: G_v2_def init_v2_def)
  show ?thesis
    unfolding s1 s2 using g1 g2 by (simp add: init_v1_def init_v2_def)
qed

text \<open>
  Claim C8. In both versions, registering a second provider after a first replaces
  the first: the slot holds the second provider, and \<open>G\<close>, \<open>NG\<close> and (in version 2)
  \<open>CurrentLocale\<close> return what the second provider's methods return.
\<close>

theorem Initialise_last_write_wins:
  "instance_v1 (Initialise_v1 (Some Q1) (Initialise_v1 (Some P1) st1)) = Some Q1
   \<and> G_v1 (Initialise_v1 (Some Q1) (Initialise_v1 (Some P1) st1)) msgid = MarkerAPI_G Q1 msgid
   \<and> NG_v1 (Initialise_v1 (Some Q1) (Initialise_v1 (Some P1) st1)) s p n = MarkerAPI_NG Q1 s p n
   \<and> instance_v2 (Initialise_v2 (Some Q2) (Initialise_v2 (Some P2) st2)) = Some Q2
   \<and> G_v2 (Initialise_v2 (Some Q2) (Initialise_v2 (Some P2) st2)) msgid = API_G Q2 msgid
   \<and> NG_v2 (Initialise_v2 (Some Q2) (Initialise_v2 (Some P2) st2)) s p n = API_NG Q2 s p n
   \<and> CurrentLocale_v2 env (Initialise_v2 (Some Q2) (Initialise_v2 (Some P2) st2))
       = API_CurrentLocale Q2 ()"
  by (simp add: Initialise_v1_def Initialise_v2_def G_v1_def NG_v1_def G_v2_def NG_v2_def
      CurrentLocale_v2_def)

end
